theory Spec2Isabelle
  imports Main "HOL-Library.Word" "HOL-Library.Sublist"
begin

unbundle bit_operations_syntax

section \<open>Strings and the built-in operations the script calls\<close>

text \<open>
  A string of the program is the list of its code units, one \<^typ>\<open>char\<close> per unit, and
  an array is a list. The operations below are the built-ins of the language that
  \<^verbatim>\<open>src/index.ts\<close> calls, with the behaviour the language gives them on every argument.
\<close>

text \<open>\<^verbatim>\<open>s.startsWith(searchString)\<close>.\<close>

definition startsWith :: "string \<Rightarrow> string \<Rightarrow> bool" where
  "startsWith s searchString = (take (length searchString) s = searchString)"

text \<open>\<^verbatim>\<open>xs.findIndex(p)\<close>: the index of the first element that satisfies \<open>p\<close>, or \<open>-1\<close>.\<close>

fun findIndex_from :: "('a \<Rightarrow> bool) \<Rightarrow> 'a list \<Rightarrow> int \<Rightarrow> int" where
  "findIndex_from p [] i = - 1"
| "findIndex_from p (x # xs) i = (if p x then i else findIndex_from p xs (i + 1))"

definition findIndex :: "('a \<Rightarrow> bool) \<Rightarrow> 'a list \<Rightarrow> int" where
  "findIndex p xs = findIndex_from p xs 0"

text \<open>\<^verbatim>\<open>xs.find(p)\<close>: the first element that satisfies \<open>p\<close>, or \<^verbatim>\<open>undefined\<close>.\<close>

fun find_first :: "('a \<Rightarrow> bool) \<Rightarrow> 'a list \<Rightarrow> 'a option" where
  "find_first p [] = None"
| "find_first p (x # xs) = (if p x then Some x else find_first p xs)"

text \<open>\<^verbatim>\<open>xs.includes(v)\<close> on an array of strings.\<close>

fun array_includes :: "string list \<Rightarrow> string \<Rightarrow> bool" where
  "array_includes [] v = False"
| "array_includes (x # xs) v = (x = v \<or> array_includes xs v)"

text \<open>\<^verbatim>\<open>xs.join(sep)\<close> on an array of strings.\<close>

fun join :: "string list \<Rightarrow> string \<Rightarrow> string" where
  "join [] sep = []"
| "join [x] sep = x"
| "join (x # y # ys) sep = x @ sep @ join (y # ys) sep"

text \<open>
  \<^verbatim>\<open>s.substring(start, end)\<close>: both indices are clamped to \<open>[0, length s]\<close> and swapped
  when \<open>start\<close> is the larger one.
\<close>

definition substring :: "string \<Rightarrow> int \<Rightarrow> int \<Rightarrow> string" where
  "substring s start end =
     (let n = int (length s);
          a = min (max start 0) n;
          b = min (max end 0) n;
          lo = min a b;
          hi = max a b
      in take (nat (hi - lo)) (drop (nat lo) s))"

text \<open>
  \<^verbatim>\<open>s.split("\n")\<close>: the segments of \<open>s\<close> between line feeds, empty segments kept.
  \<open>cur\<close> is the segment being read.
\<close>

fun split_from :: "string \<Rightarrow> string \<Rightarrow> string list" where
  "split_from cur [] = [cur]"
| "split_from cur (c # cs) =
     (if c = CHR 0x0A then cur # split_from [] cs else split_from (cur @ [c]) cs)"

definition split_lines :: "string \<Rightarrow> string list" where
  "split_lines s = split_from [] s"

section \<open>Tokens and the colour table\<close>

text \<open>\<^verbatim>\<open>type Token = { text: string; scopes: string[] }\<close>\<close>

record Token =
  "text" :: string
  scopes :: "string list"

text \<open>The table \<^verbatim>\<open>htmlColors\<close>, in the order of the source.\<close>

definition htmlColors :: "string list" where
  "htmlColors =
    [''#d78797'', ''#c47d85'', ''#b27373'', ''#d38b83'', ''#bf8172'', ''#ac7762'',
     ''#ca9170'', ''#b78761'', ''#a37c53'', ''#bf975f'', ''#ab8d53'', ''#978248'',
     ''#af9d55'', ''#9c924c'', ''#898744'', ''#9da353'', ''#8a974e'', ''#788b48'',
     ''#88a85c'', ''#759c58'', ''#638f54'', ''#6fac6b'', ''#5d9f67'', ''#4c9263'',
     ''#52af7d'', ''#41a179'', ''#319373'', ''#31b191'', ''#21a28a'', ''#129484'',
     ''#09b1a4'', ''#00a29c'', ''#039393'', ''#13afb5'', ''#1e9fab'', ''#2690a0'',
     ''#3cabc3'', ''#439bb7'', ''#468caa'', ''#61a5ce'', ''#6395c0'', ''#6386b1'',
     ''#829ed4'', ''#808fc4'', ''#7c80b3'', ''#9e96d5'', ''#9887c3'', ''#9179b1'',
     ''#b58fd1'', ''#ac81be'', ''#a174ab'', ''#c689c8'', ''#ba7cb4'', ''#ad70a1'',
     ''#d185bb'', ''#c27aa7'', ''#b36e93'', ''#d685aa'', ''#c67a96'', ''#b57084'']"

text \<open>
  Reading \<^verbatim>\<open>xs[i]\<close>: \<^verbatim>\<open>undefined\<close> (here \<open>None\<close>) when \<open>i\<close> is out of range.
\<close>

definition array_get :: "'a list \<Rightarrow> nat \<Rightarrow> 'a option" where
  "array_get xs i = (if i < length xs then Some (xs ! i) else None)"

text \<open>
  A value interpolated into a template literal: \<^verbatim>\<open>undefined\<close> prints as the word
  \<^verbatim>\<open>undefined\<close>.
\<close>

definition interpolate :: "string option \<Rightarrow> string" where
  "interpolate v = (case v of Some s \<Rightarrow> s | None \<Rightarrow> ''undefined'')"

section \<open>The renderer\<close>

text \<open>
  \<^verbatim>\<open>crc8\<close> comes from the package \<^verbatim>\<open>crc\<close>, which is not part of the repository. It is a
  parameter of the renderer: a function from the text to an 8-bit value. Its result
  type \<^typ>\<open>8 word\<close> is the only thing assumed of it. The call
  \<^verbatim>\<open>console.log(hash)\<close> writes to the console and does not change what the function
  returns; the model is of the returned string.
\<close>

type_synonym checksum = "string \<Rightarrow> 8 word"

definition styleAttributeForToken :: "checksum \<Rightarrow> Token \<Rightarrow> string" where
  \<open>styleAttributeForToken crc8 token =
     (if findIndex
           (\<lambda>scope. startsWith scope ''entity.name'' \<or> startsWith scope ''variable'')
           (scopes token) \<noteq> - 1
      then
        (let hash = crc8 (text token);
             colorIndex = unat hash mod length htmlColors;
             color = array_get htmlColors colorIndex
         in ''style="color: '' @ interpolate color @ ''"'')
      else '''')\<close>

text \<open>
  The two loops of \<^verbatim>\<open>tokenizedFileToHTML\<close>; \<open>html\<close> is the string built so far.
  The generator it reads is consumed to its end, so the argument is the list of the
  lines it yields.
\<close>

fun renderTokens :: "checksum \<Rightarrow> string \<Rightarrow> Token list \<Rightarrow> string" where
  \<open>renderTokens crc8 html [] = html\<close>
| \<open>renderTokens crc8 html (token # rest) =
     renderTokens crc8
       (html @ ''<span '' @ styleAttributeForToken crc8 token @ '' title="''
          @ join (scopes token) '','' @ ''">'' @ text token @ ''</span>'')
       rest\<close>

fun renderLines :: "checksum \<Rightarrow> string \<Rightarrow> Token list list \<Rightarrow> string" where
  \<open>renderLines crc8 html [] = html\<close>
| \<open>renderLines crc8 html (line # rest) =
     renderLines crc8 (renderTokens crc8 html line @ ''<br>'') rest\<close>

definition tokenizedFileToHTML :: "checksum \<Rightarrow> Token list list \<Rightarrow> string" where
  \<open>tokenizedFileToHTML crc8 lines = renderLines crc8 ''<pre><code>'' lines @ ''</code></pre>''\<close>

section \<open>The tokenizer adapter\<close>

text \<open>
  The engine's types, as \<^verbatim>\<open>vscode-textmate\<close> declares them: a token of the engine is
  \<^verbatim>\<open>{ startIndex, endIndex, scopes }\<close> (its field \<^verbatim>\<open>scopes\<close> is \<open>tokenScopes\<close> here, the
  name \<open>scopes\<close> being the field of \<^typ>\<open>Token\<close>), the result of \<^verbatim>\<open>tokenizeLine\<close> is
  \<^verbatim>\<open>{ tokens, ruleStack }\<close>. The rule stack is opaque to the script: a type parameter.
  A grammar is used through its method \<^verbatim>\<open>tokenizeLine(lineText, prevState)\<close> only, so a
  grammar is that function; as declared, it returns a result on every line.
\<close>

record IToken =
  startIndex :: int
  endIndex :: int
  tokenScopes :: "string list"

record 'rs ITokenizeLineResult =
  tokens :: "IToken list"
  ruleStack :: 'rs

type_synonym 'rs IGrammar = "string \<Rightarrow> 'rs \<Rightarrow> 'rs ITokenizeLineResult"

text \<open>The inner loop of \<^verbatim>\<open>tokenize\<close>: one \<^verbatim>\<open>outToken\<close> pushed per token of the engine.\<close>

fun codeLineTokens :: "string \<Rightarrow> IToken list \<Rightarrow> Token list" where
  "codeLineTokens codeLine [] = []"
| "codeLineTokens codeLine (token # rest) =
     \<lparr>text = substring codeLine (startIndex token) (endIndex token),
      scopes = tokenScopes token\<rparr>
     # codeLineTokens codeLine rest"

text \<open>
  The outer loop, over the lines that remain, with the rule stack held at that point.
  Each line's list is yielded before the next line is read; the result is the list
  of everything the generator yields when it is consumed to its end.
\<close>

fun tokenize_loop :: "'rs IGrammar \<Rightarrow> 'rs \<Rightarrow> string list \<Rightarrow> Token list list" where
  "tokenize_loop grammar stack [] = []"
| "tokenize_loop grammar stack (codeLine # rest) =
     (let tokenizeLineResult = grammar codeLine stack
      in codeLineTokens codeLine (tokens tokenizeLineResult)
         # tokenize_loop grammar (ruleStack tokenizeLineResult) rest)"

text \<open>\<open>INITIAL\<close> is the constant \<^verbatim>\<open>vscodeTextmate.INITIAL\<close> of the engine.\<close>

definition tokenize :: "'rs \<Rightarrow> string \<Rightarrow> 'rs IGrammar \<Rightarrow> Token list list" where
  "tokenize INITIAL code grammar = tokenize_loop grammar INITIAL (split_lines code)"

section \<open>Grammar lookup and the top-level operation\<close>

text \<open>
  An entry of \<^verbatim>\<open>tmGrammars.grammars\<close>, with the fields the script reads; \<^verbatim>\<open>aliases\<close> is
  optional. The list itself belongs to the package \<^verbatim>\<open>tm-grammars\<close> and is a parameter.
\<close>

record GrammarInfo =
  name :: string
  scopeName :: string
  aliases :: "string list option"

definition flagToGrammarInfo :: "GrammarInfo list \<Rightarrow> string \<Rightarrow> GrammarInfo option" where
  "flagToGrammarInfo grammars flag =
     find_first
       (\<lambda>grammarInfo. flag = name grammarInfo
          \<or> (case aliases grammarInfo of None \<Rightarrow> False | Some as \<Rightarrow> array_includes as flag))
       grammars"

text \<open>A thrown \<^verbatim>\<open>Error\<close> with its message.\<close>

datatype error = Error string

text \<open>
  \<^verbatim>\<open>highlight\<close>. \<open>loadGrammar\<close> is \<^verbatim>\<open>registry.loadGrammar\<close> of the engine, awaited: the
  grammar for a scope name, or none.
\<close>

definition highlight ::
  "GrammarInfo list \<Rightarrow> (string \<Rightarrow> 'rs IGrammar option) \<Rightarrow> 'rs \<Rightarrow> checksum
     \<Rightarrow> string \<Rightarrow> string \<Rightarrow> error + string" where
  "highlight grammars loadGrammar INITIAL crc8 code flag =
     (case flagToGrammarInfo grammars flag of
        None \<Rightarrow> Inl (Error (''Failed to find grammar for flag '' @ flag))
      | Some grammarInfo \<Rightarrow>
          (case loadGrammar (scopeName grammarInfo) of
             None \<Rightarrow>
               Inl (Error (''Failed to load grammar for scope name '' @ scopeName grammarInfo))
           | Some grammar \<Rightarrow> Inr (tokenizedFileToHTML crc8 (tokenize INITIAL code grammar))))"

section \<open>Notions of the specification\<close>

text \<open>A token is name-like when one of its scopes starts with one of the two prefixes.\<close>

definition nameLike :: "Token \<Rightarrow> bool" where
  "nameLike token =
     (\<exists>scope \<in> set (scopes token). prefix ''entity.name'' scope \<or> prefix ''variable'' scope)"

text \<open>
  A flag resolves to a grammar entry when it is the entry's name or one of its
  aliases, compared as strings.
\<close>

definition flagMatches :: "string \<Rightarrow> GrammarInfo \<Rightarrow> bool" where
  "flagMatches flag grammarInfo =
     (flag = name grammarInfo
      \<or> flag \<in> set (case aliases grammarInfo of None \<Rightarrow> [] | Some as \<Rightarrow> as))"

text \<open>The number of segments of a text that line feeds delimit.\<close>

definition segments :: "string \<Rightarrow> nat" where
  "segments code = Suc (length (filter (\<lambda>c. c = CHR 0x0A) code))"

text \<open>
  The spans \<open>ts\<close> cover the positions from \<open>pos\<close> to \<open>n\<close> without gap or overlap: each
  starts where the one before it ended, none runs backwards, and the last ends at \<open>n\<close>
  or beyond it (the last span of an engine may end after the line, where the line
  feed would be).
\<close>

fun covers :: "int \<Rightarrow> IToken list \<Rightarrow> int \<Rightarrow> bool" where
  "covers pos [] n = (n \<le> pos)"
| "covers pos (t # ts) n =
     (startIndex t = pos \<and> pos \<le> endIndex t \<and> covers (endIndex t) ts n)"

text \<open>
  The rule stack held when line \<open>i\<close> is tokenized: the initial one before line 0, then
  the one the call for the line before returned.
\<close>

fun stackBefore :: "'rs IGrammar \<Rightarrow> 'rs \<Rightarrow> string list \<Rightarrow> nat \<Rightarrow> 'rs" where
  "stackBefore grammar INITIAL codeLines 0 = INITIAL"
| "stackBefore grammar INITIAL codeLines (Suc i) =
     ruleStack (grammar (codeLines ! i) (stackBefore grammar INITIAL codeLines i))"

text \<open>
  The markup of one token and of a whole token sequence as the specification words
  it: one element per token, a line break after each line, inside one
  \<^verbatim>\<open><pre><code>\<close> element.
\<close>

definition spanMarkup :: "checksum \<Rightarrow> Token \<Rightarrow> string" where
  \<open>spanMarkup crc8 token =
     ''<span '' @ styleAttributeForToken crc8 token @ '' title="'' @ join (scopes token) '',''
       @ ''">'' @ text token @ ''</span>''\<close>

definition documentMarkup :: "checksum \<Rightarrow> Token list list \<Rightarrow> string" where
  \<open>documentMarkup crc8 lines =
     ''<pre><code>''
       @ concat (map (\<lambda>line. concat (map (spanMarkup crc8) line) @ ''<br>'') lines)
       @ ''</code></pre>''\<close>

text \<open>The same with the style slot of every element left empty.\<close>

definition plainSpanMarkup :: "Token \<Rightarrow> string" where
  \<open>plainSpanMarkup token =
     ''<span  title="'' @ join (scopes token) '','' @ ''">'' @ text token @ ''</span>''\<close>

definition plainDocumentMarkup :: "Token list list \<Rightarrow> string" where
  \<open>plainDocumentMarkup lines =
     ''<pre><code>''
       @ concat (map (\<lambda>line. concat (map plainSpanMarkup line) @ ''<br>'') lines)
       @ ''</code></pre>''\<close>

section \<open>Instances for the examples\<close>

text \<open>
  Modelled from the spec: the function \<^verbatim>\<open>crc8\<close> of the package \<^verbatim>\<open>crc\<close> is not in the
  repository; the specification calls it an 8-bit checksum (CRC-8) over the bytes of
  the text. The instance for the examples is the CRC-8 with polynomial
  \<open>x^8 + x^2 + x + 1\<close> and initial value 0, bit by bit.
\<close>

definition crc8_shift :: "8 word \<Rightarrow> 8 word" where
  "crc8_shift c = (if bit c 7 then push_bit 1 c XOR 0x07 else push_bit 1 c)"

definition crc8_byte :: "8 word \<Rightarrow> char \<Rightarrow> 8 word" where
  "crc8_byte crc b = (crc8_shift ^^ 8) (crc XOR word_of_nat (of_char b))"

definition crc8_poly07 :: checksum where
  "crc8_poly07 s = foldl crc8_byte 0 s"

text \<open>
  Two scripted engines on rule stacks that count the lines read. \<open>wordGrammar\<close> returns
  nothing on an empty line and otherwise two spans, the first character and the
  rest, the second scoped by the parity of the stack. \<open>wholeLineGrammar\<close> returns one
  span on every line, the empty one too, that ends one position after the line.
\<close>

definition wordGrammar :: "nat IGrammar" where
  "wordGrammar lineText stack =
     \<lparr>tokens =
        (if lineText = [] then []
         else [\<lparr>startIndex = 0, endIndex = 1,
                 tokenScopes = [''source.demo'', ''variable.other.demo'']\<rparr>,
               \<lparr>startIndex = 1, endIndex = int (length lineText),
                 tokenScopes = [''source.demo'', if even stack then ''meta.even'' else ''meta.odd'']\<rparr>]),
      ruleStack = Suc stack\<rparr>"

definition wholeLineGrammar :: "nat IGrammar" where
  "wholeLineGrammar lineText stack =
     \<lparr>tokens = [\<lparr>startIndex = 0, endIndex = int (length lineText) + 1,
                  tokenScopes = [''source.demo'']\<rparr>],
      ruleStack = Suc stack\<rparr>"

definition demoGrammars :: "GrammarInfo list" where
  "demoGrammars =
     [\<lparr>name = ''typescript'', scopeName = ''source.ts'', aliases = Some [''ts'']\<rparr>,
      \<lparr>name = ''haskell'', scopeName = ''source.haskell'', aliases = Some [''hs'']\<rparr>,
      \<lparr>name = ''ts'', scopeName = ''source.other'', aliases = None\<rparr>]"

definition demoRegistry :: "string \<Rightarrow> nat IGrammar option" where
  "demoRegistry scope = (if scope = ''source.ts'' then Some wordGrammar else None)"

section \<open>Facts about the built-in operations\<close>

lemma length_htmlColors: "length htmlColors = 60"
  by (simp add: htmlColors_def)

lemma findIndex_from_iff:
  "0 \<le> i \<Longrightarrow> findIndex_from p xs i \<noteq> - 1 \<longleftrightarrow> (\<exists>x \<in> set xs. p x)"
  by (induction xs arbitrary: i) auto

lemma findIndex_iff: "findIndex p xs \<noteq> - 1 \<longleftrightarrow> (\<exists>x \<in> set xs. p x)"
  by (simp add: findIndex_def findIndex_from_iff)

lemma startsWith_prefix: "startsWith s p \<longleftrightarrow> prefix p s"
  unfolding startsWith_def prefix_def
  by (metis append_eq_conv_conj append_take_drop_id)

section \<open>The style attribute\<close>

lemma nameLike_findIndex:
  "findIndex (\<lambda>scope. startsWith scope ''entity.name'' \<or> startsWith scope ''variable'')
     (scopes token) \<noteq> - 1
   \<longleftrightarrow> nameLike token"
  by (simp only: findIndex_iff startsWith_prefix nameLike_def)

lemma array_get_htmlColors:
  "array_get htmlColors (unat (h :: 8 word) mod length htmlColors)
     = Some (htmlColors ! (unat h mod 60))"
  by (simp add: array_get_def length_htmlColors)

lemma style_nameLike:
  \<open>nameLike token \<Longrightarrow>
     styleAttributeForToken crc8 token
       = ''style="color: '' @ htmlColors ! (unat (crc8 (text token)) mod 60) @ ''"''\<close>
  by (simp only: styleAttributeForToken_def nameLike_findIndex if_True Let_def
        array_get_htmlColors interpolate_def option.case)

lemma style_not_nameLike:
  \<open>\<not> nameLike token \<Longrightarrow> styleAttributeForToken crc8 token = ''''\<close>
  by (simp only: styleAttributeForToken_def nameLike_findIndex if_False)

text \<open>
  Claim C1. For a name-like token the style attribute carries the colour at index
  \<open>crc8 (text) mod 60\<close> of the table. The table has 60 entries, the index is below
  60, so the read is in range and yields an entry of the table. The colour is a function
  of the text alone: a second name-like token with the same text has the same
  attribute, whatever its scopes.
\<close>

theorem color_of_name_like_token:
  assumes "nameLike token"
  shows \<open>styleAttributeForToken crc8 token
           = ''style="color: '' @ htmlColors ! (unat (crc8 (text token)) mod 60) @ ''"''
         \<and> length htmlColors = 60
         \<and> unat (crc8 (text token)) mod 60 < length htmlColors
         \<and> array_get htmlColors (unat (crc8 (text token)) mod 60)
             = Some (htmlColors ! (unat (crc8 (text token)) mod 60))
         \<and> (\<forall>other. nameLike other \<and> text other = text token
               \<longrightarrow> styleAttributeForToken crc8 other = styleAttributeForToken crc8 token)\<close>
proof -
  have idx: "unat (crc8 (text token)) mod 60 < length htmlColors"
    by (simp add: length_htmlColors)
  have same: "styleAttributeForToken crc8 other = styleAttributeForToken crc8 token"
    if "nameLike other" "text other = text token" for other
    using that assms by (simp add: style_nameLike)
  show ?thesis
    using assms idx same by (simp add: style_nameLike length_htmlColors array_get_def)
qed

theorem color_of_name_like_token_witness:
  \<open>nameLike \<lparr>text = ''x'', scopes = [''source.ts'', ''variable.other.readwrite.ts'']\<rparr>
   \<and> styleAttributeForToken crc8_poly07
        \<lparr>text = ''x'', scopes = [''source.ts'', ''variable.other.readwrite.ts'']\<rparr>
       = ''style="color: #c689c8"''
   \<and> unat (crc8_poly07 ''x'') mod 60 = 51
   \<and> nameLike \<lparr>text = ''x'', scopes = [''entity.name.function.ts'']\<rparr>
   \<and> styleAttributeForToken crc8_poly07 \<lparr>text = ''x'', scopes = [''entity.name.function.ts'']\<rparr>
       = ''style="color: #c689c8"''\<close>
proof -
  let ?t = "\<lparr>text = ''x'', scopes = [''source.ts'', ''variable.other.readwrite.ts'']\<rparr>"
  let ?u = "\<lparr>text = ''x'', scopes = [''entity.name.function.ts'']\<rparr>"
  have t: "nameLike ?t" and u: "nameLike ?u"
    by (simp_all add: nameLike_def)
  have h: "unat (crc8_poly07 ''x'') mod 60 = 51"
    by code_simp
  have c: "htmlColors ! 51 = ''#c689c8''"
    by code_simp
  note inst = color_of_name_like_token [OF t, of crc8_poly07]
  from inst have 1: \<open>styleAttributeForToken crc8_poly07 ?t = ''style="color: #c689c8"''\<close>
    by (simp add: h c)
  from inst u
  have \<open>styleAttributeForToken crc8_poly07 ?u = styleAttributeForToken crc8_poly07 ?t\<close>
    by simp
  with 1 t u h show ?thesis by simp
qed

lemma renderTokens_concat:
  "renderTokens crc8 html line = html @ concat (map (spanMarkup crc8) line)"
  by (induction line arbitrary: html) (simp_all add: spanMarkup_def)

lemma renderLines_concat:
  \<open>renderLines crc8 html lines
     = html @ concat (map (\<lambda>line. concat (map (spanMarkup crc8) line) @ ''<br>'') lines)\<close>
  by (induction lines arbitrary: html) (simp_all add: renderTokens_concat)

lemma tokenizedFileToHTML_documentMarkup:
  "tokenizedFileToHTML crc8 lines = documentMarkup crc8 lines"
  by (simp add: tokenizedFileToHTML_def documentMarkup_def renderLines_concat)

lemma spanMarkup_plain:
  "\<not> nameLike token \<Longrightarrow> spanMarkup crc8 token = plainSpanMarkup token"
  by (simp add: spanMarkup_def plainSpanMarkup_def style_not_nameLike)

lemma documentMarkup_plain:
  assumes "\<forall>line \<in> set lines. \<forall>token \<in> set line. \<not> nameLike token"
  shows "documentMarkup crc8 lines = plainDocumentMarkup lines"
proof -
  have eq: "map (spanMarkup crc8) line = map plainSpanMarkup line" if "line \<in> set lines" for line
    by (rule map_cong [OF refl]) (use assms that in \<open>simp add: spanMarkup_plain\<close>)
  have m: "map (\<lambda>line. concat (map (spanMarkup crc8) line) @ ''<br>'') lines
      = map (\<lambda>line. concat (map plainSpanMarkup line) @ ''<br>'') lines"
    by (rule map_cong [OF refl]) (simp only: eq)
  show ?thesis
    unfolding documentMarkup_def plainDocumentMarkup_def by (simp only: m)
qed

lemma style_cases:
  \<open>styleAttributeForToken crc8 token
     = (if nameLike token
        then ''style="color: '' @ htmlColors ! (unat (crc8 (text token)) mod 60) @ ''"''
        else '''')\<close>
  by (simp add: style_nameLike style_not_nameLike)

lemma spanMarkup_nameLike:
  \<open>nameLike token \<Longrightarrow>
     spanMarkup crc8 token
       = ''<span style="color: '' @ htmlColors ! (unat (crc8 (text token)) mod 60)
         @ ''" title="'' @ join (scopes token) '','' @ ''">'' @ text token @ ''</span>''\<close>
  by (simp add: spanMarkup_def style_nameLike)

lemma spanMarkup_not_nameLike:
  \<open>\<not> nameLike token \<Longrightarrow>
     spanMarkup crc8 token
       = ''<span  title="'' @ join (scopes token) '','' @ ''">'' @ text token @ ''</span>''\<close>
  by (simp add: spanMarkup_def style_not_nameLike)

lemma tokenizedFileToHTML_at:
  \<open>tokenizedFileToHTML crc8 (linesBefore @ (tokensBefore @ token # tokensAfter) # linesAfter)
     = ''<pre><code>''
       @ concat (map (\<lambda>line. concat (map (spanMarkup crc8) line) @ ''<br>'') linesBefore)
       @ concat (map (spanMarkup crc8) tokensBefore)
       @ spanMarkup crc8 token
       @ concat (map (spanMarkup crc8) tokensAfter) @ ''<br>''
       @ concat (map (\<lambda>line. concat (map (spanMarkup crc8) line) @ ''<br>'') linesAfter)
       @ ''</code></pre>''\<close>
  by (simp add: tokenizedFileToHTML_documentMarkup documentMarkup_def)

lemma tokenizedFileToHTML_closed:
  \<open>tokenizedFileToHTML crc8 lines
     = ''<pre><code>''
       @ concat (map (\<lambda>line. concat (map (spanMarkup crc8) line) @ ''<br>'') lines)
       @ ''</code></pre>''\<close>
  by (simp add: tokenizedFileToHTML_documentMarkup documentMarkup_def)

section \<open>The rendered document\<close>

text \<open>
  Claim C5. The output is \<^verbatim>\<open><pre><code>\<close>, then for each line in order one element per
  token in order and one \<^verbatim>\<open><br>\<close>, then \<^verbatim>\<open></code></pre>\<close>. The element of a token is
  \<^verbatim>\<open><span \<close>, the style attribute, \<^verbatim>\<open> title="\<close>, the scopes in their order with a comma
  between two of them, \<^verbatim>\<open>">\<close>, the text as it is, \<^verbatim>\<open></span>\<close>. Nothing is escaped: the
  text \<^verbatim>\<open>a<b && c\<close> appears unchanged in the output.
\<close>

theorem rendered_output_format:
  \<open>tokenizedFileToHTML crc8 lines
     = ''<pre><code>''
       @ concat (map (\<lambda>line. concat (map (spanMarkup crc8) line) @ ''<br>'') lines)
       @ ''</code></pre>''
   \<and> spanMarkup crc8 token
     = ''<span '' @ styleAttributeForToken crc8 token
       @ '' title="'' @ join (scopes token) '','' @ ''">'' @ text token @ ''</span>''
   \<and> join [] '','' = ''''
   \<and> join (scope # others) '','' = scope @ concat (map (\<lambda>s. '','' @ s) others)
   \<and> tokenizedFileToHTML crc8 [[\<lparr>text = ''a<b && c'', scopes = [''source.ts'', ''meta.expr'']\<rparr>], []]
     = ''<pre><code><span  title="source.ts,meta.expr">a<b && c</span><br><br></code></pre>''\<close>
proof -
  have j: "join (scope # others) sep = scope @ concat (map (\<lambda>s. sep @ s) others)" for scope others sep
    by (induction others arbitrary: scope) simp_all
  have n: "\<not> nameLike \<lparr>text = ''a<b && c'', scopes = [''source.ts'', ''meta.expr'']\<rparr>"
    by (simp add: nameLike_def)
  have e: \<open>tokenizedFileToHTML crc8 [[\<lparr>text = ''a<b && c'', scopes = [''source.ts'', ''meta.expr'']\<rparr>], []]
     = ''<pre><code><span  title="source.ts,meta.expr">a<b && c</span><br><br></code></pre>''\<close>
    by (simp add: tokenizedFileToHTML_def style_not_nameLike [OF n])
  show ?thesis
    using e by (simp add: tokenizedFileToHTML_documentMarkup documentMarkup_def spanMarkup_def j)
qed

text \<open>
  Claim C2, as amended. A token is name-like exactly when one of its scopes is
  \<^verbatim>\<open>entity.name\<close> or \<^verbatim>\<open>variable\<close> followed by anything, so the scope \<^verbatim>\<open>variableX\<close> counts.
  The renderer gives the span of a token a style attribute exactly when the token is
  name-like. The span rendered for a name-like token is
  \<^verbatim>\<open><span style="color: C" title="S">T</span>\<close>, with its colour \<open>C\<close>, its scopes \<open>S\<close> and its
  text \<open>T\<close>: it carries an inline colour style attribute. The span rendered for any
  other token is \<^verbatim>\<open><span  title="S">T</span>\<close>. These spans are what \<^verbatim>\<open>tokenizedFileToHTML\<close>
  puts out: the span of each token stands in the output at the token's place. So a
  token list without a name-like token renders to the markup in which no span has a
  style attribute from the renderer. A colour style attribute can still occur in that
  output where the text or the scopes of a token hold one, both being inserted as they
  are.
\<close>

theorem style_attribute_iff_name_like:
  \<open>(nameLike token
      \<longleftrightarrow> (\<exists>scope \<in> set (scopes token). \<exists>rest.
             scope = ''entity.name'' @ rest \<or> scope = ''variable'' @ rest))
   \<and> nameLike \<lparr>text = t, scopes = [''variableX'']\<rparr>
   \<and> (styleAttributeForToken crc8 token \<noteq> '''' \<longleftrightarrow> nameLike token)
   \<and> ((\<exists>color. styleAttributeForToken crc8 token = ''style="color: '' @ color @ ''"'')
        \<longleftrightarrow> nameLike token)
   \<and> (nameLike token \<longrightarrow>
        spanMarkup crc8 token
          = ''<span style="color: '' @ htmlColors ! (unat (crc8 (text token)) mod 60)
            @ ''" title="'' @ join (scopes token) '','' @ ''">'' @ text token @ ''</span>'')
   \<and> (\<not> nameLike token \<longrightarrow>
        spanMarkup crc8 token
          = ''<span  title="'' @ join (scopes token) '','' @ ''">'' @ text token @ ''</span>'')
   \<and> tokenizedFileToHTML crc8 (linesBefore @ (tokensBefore @ token # tokensAfter) # linesAfter)
       = ''<pre><code>''
         @ concat (map (\<lambda>line. concat (map (spanMarkup crc8) line) @ ''<br>'') linesBefore)
         @ concat (map (spanMarkup crc8) tokensBefore)
         @ spanMarkup crc8 token
         @ concat (map (spanMarkup crc8) tokensAfter) @ ''<br>''
         @ concat (map (\<lambda>line. concat (map (spanMarkup crc8) line) @ ''<br>'') linesAfter)
         @ ''</code></pre>''
   \<and> ((\<forall>line \<in> set lines. \<forall>tok \<in> set line. \<not> nameLike tok)
        \<longrightarrow> tokenizedFileToHTML crc8 lines = plainDocumentMarkup lines)\<close>
proof -
  have a: "styleAttributeForToken crc8 token \<noteq> '''' \<longleftrightarrow> nameLike token"
    by (simp add: style_cases)
  have b: \<open>(\<exists>color. styleAttributeForToken crc8 token = ''style="color: '' @ color @ ''"'')
        \<longleftrightarrow> nameLike token\<close>
    by (auto simp add: style_cases)
  have c: "nameLike token
        \<longleftrightarrow> (\<exists>scope \<in> set (scopes token). \<exists>rest.
               scope = ''entity.name'' @ rest \<or> scope = ''variable'' @ rest)"
    unfolding nameLike_def prefix_def by blast
  have d: "nameLike \<lparr>text = t, scopes = [''variableX'']\<rparr>"
    by (simp add: nameLike_def)
  have e: "tokenizedFileToHTML crc8 lines = plainDocumentMarkup lines"
    if "\<forall>line \<in> set lines. \<forall>tok \<in> set line. \<not> nameLike tok"
    using that by (simp only: tokenizedFileToHTML_documentMarkup documentMarkup_plain)
  show ?thesis
  proof (intro conjI impI)
    show "nameLike token
        \<longleftrightarrow> (\<exists>scope \<in> set (scopes token). \<exists>rest.
               scope = ''entity.name'' @ rest \<or> scope = ''variable'' @ rest)"
      by (rule c)
  qed (rule a b d e spanMarkup_nameLike spanMarkup_not_nameLike tokenizedFileToHTML_at
        | assumption)+
qed

theorem style_attribute_iff_name_like_witness:
  \<open>nameLike \<lparr>text = ''x'', scopes = [''source.ts'', ''variable.other.readwrite.ts'']\<rparr>
   \<and> styleAttributeForToken crc8_poly07
         \<lparr>text = ''x'', scopes = [''source.ts'', ''variable.other.readwrite.ts'']\<rparr> \<noteq> ''''
   \<and> \<not> nameLike \<lparr>text = ''let'', scopes = [''source.ts'', ''storage.type.ts'']\<rparr>
   \<and> \<not> nameLike \<lparr>text = '' '', scopes = [''source.ts'']\<rparr>
   \<and> nameLike \<lparr>text = ''y'', scopes = [''variableX'']\<rparr>
   \<and> tokenizedFileToHTML crc8_poly07
         [[\<lparr>text = ''let'', scopes = [''source.ts'', ''storage.type.ts'']\<rparr>,
           \<lparr>text = '' '', scopes = [''source.ts'']\<rparr>]]
       = ''<pre><code><span  title="source.ts,storage.type.ts">let</span><span  title="source.ts"> </span><br></code></pre>''
   \<and> tokenizedFileToHTML crc8_poly07
         [[\<lparr>text = ''let'', scopes = [''source.ts'', ''storage.type.ts'']\<rparr>,
           \<lparr>text = '' '', scopes = [''source.ts'']\<rparr>,
           \<lparr>text = ''x'', scopes = [''source.ts'', ''variable.other.readwrite.ts'']\<rparr>]]
       = ''<pre><code><span  title="source.ts,storage.type.ts">let</span><span  title="source.ts"> </span><span style="color: #c689c8" title="source.ts,variable.other.readwrite.ts">x</span><br></code></pre>''\<close>
proof -
  let ?x = "\<lparr>text = ''x'', scopes = [''source.ts'', ''variable.other.readwrite.ts'']\<rparr>"
  let ?k = "\<lparr>text = ''let'', scopes = [''source.ts'', ''storage.type.ts'']\<rparr>"
  let ?s = "\<lparr>text = '' '', scopes = [''source.ts'']\<rparr>"
  have x: "nameLike ?x" and k: "\<not> nameLike ?k" and s: "\<not> nameLike ?s"
    by (simp_all add: nameLike_def)
  have none: "\<forall>line \<in> set [[?k, ?s]]. \<forall>tok \<in> set line. \<not> nameLike tok"
    using k s by simp
  have h: "unat (crc8_poly07 ''x'') mod 60 = 51"
    by code_simp
  have c: "htmlColors ! 51 = ''#c689c8''"
    by code_simp
  note inst = style_attribute_iff_name_like
    [of ?x "''y''" crc8_poly07 "[]" "[?k, ?s]" "[]" "[]" "[[?k, ?s]]"]
  note instk = style_attribute_iff_name_like [of ?k _ crc8_poly07]
  note insts = style_attribute_iff_name_like [of ?s _ crc8_poly07]
  from inst x have 1: "styleAttributeForToken crc8_poly07 ?x \<noteq> ''''"
    by blast
  from inst have 2: "nameLike \<lparr>text = ''y'', scopes = [''variableX'']\<rparr>"
    by blast
  from inst none have "tokenizedFileToHTML crc8_poly07 [[?k, ?s]] = plainDocumentMarkup [[?k, ?s]]"
    by blast
  then have 3: \<open>tokenizedFileToHTML crc8_poly07 [[?k, ?s]]
       = ''<pre><code><span  title="source.ts,storage.type.ts">let</span><span  title="source.ts"> </span><br></code></pre>''\<close>
    by (simp add: plainDocumentMarkup_def plainSpanMarkup_def)
  from inst x have sx: \<open>spanMarkup crc8_poly07 ?x
      = ''<span style="color: #c689c8" title="source.ts,variable.other.readwrite.ts">x</span>''\<close>
    by (simp add: h c)
  from instk k have sk: \<open>spanMarkup crc8_poly07 ?k
      = ''<span  title="source.ts,storage.type.ts">let</span>''\<close>
    by simp
  from insts s have ss: \<open>spanMarkup crc8_poly07 ?s = ''<span  title="source.ts"> </span>''\<close>
    by simp
  from inst have \<open>tokenizedFileToHTML crc8_poly07 [[?k, ?s, ?x]]
      = ''<pre><code>'' @ spanMarkup crc8_poly07 ?k @ spanMarkup crc8_poly07 ?s
        @ spanMarkup crc8_poly07 ?x @ ''<br></code></pre>''\<close>
    by simp
  then have 4: \<open>tokenizedFileToHTML crc8_poly07 [[?k, ?s, ?x]]
       = ''<pre><code><span  title="source.ts,storage.type.ts">let</span><span  title="source.ts"> </span><span style="color: #c689c8" title="source.ts,variable.other.readwrite.ts">x</span><br></code></pre>''\<close>
    by (simp only: sx sk ss) simp
  show ?thesis by (intro conjI x 1 k s 2 3 4)
qed

text \<open>
  The claim C2 as it was stated fails. No scope of the two tokens below starts with
  either prefix. The fragment rendered for the first contains a colour style
  attribute, the one its text brings along; in the fragment rendered for the second
  the \<^verbatim>\<open>span\<close> element itself carries one, which its scope brings along.
\<close>

theorem verbatim_text_carries_color_style:
  \<open>\<not> nameLike \<lparr>text = ''<i style="color: red">'', scopes = [''comment.line'']\<rparr>
   \<and> tokenizedFileToHTML crc8_poly07
         [[\<lparr>text = ''<i style="color: red">'', scopes = [''comment.line'']\<rparr>]]
       = ''<pre><code><span  title="comment.line"><i style="color: red"></span><br></code></pre>''
   \<and> sublist ''style="color: ''
         (tokenizedFileToHTML crc8_poly07
            [[\<lparr>text = ''<i style="color: red">'', scopes = [''comment.line'']\<rparr>]])
   \<and> \<not> nameLike \<lparr>text = ''x'', scopes = [''source" style="color: red'']\<rparr>
   \<and> tokenizedFileToHTML crc8_poly07
         [[\<lparr>text = ''x'', scopes = [''source" style="color: red'']\<rparr>]]
       = ''<pre><code><span  title="source" style="color: red">x</span><br></code></pre>''\<close>
proof -
  let ?c = \<open>\<lparr>text = ''<i style="color: red">'', scopes = [''comment.line'']\<rparr>\<close>
  let ?d = \<open>\<lparr>text = ''x'', scopes = [''source" style="color: red'']\<rparr>\<close>
  have n: "\<not> nameLike ?c" and m: "\<not> nameLike ?d"
    by (simp_all add: nameLike_def)
  have e: \<open>tokenizedFileToHTML crc8_poly07 [[?c]]
       = ''<pre><code><span  title="comment.line"><i style="color: red"></span><br></code></pre>''\<close>
    by (simp add: tokenizedFileToHTML_def style_not_nameLike [OF n])
  have f: \<open>tokenizedFileToHTML crc8_poly07 [[?d]]
       = ''<pre><code><span  title="source" style="color: red">x</span><br></code></pre>''\<close>
    by (simp add: tokenizedFileToHTML_def style_not_nameLike [OF m])
  have \<open>''<pre><code><span  title="comment.line"><i style="color: red"></span><br></code></pre>''
      = ''<pre><code><span  title="comment.line"><i '' @ ''style="color: '' @ ''red"></span><br></code></pre>''\<close>
    by simp
  then have \<open>sublist ''style="color: ''
     ''<pre><code><span  title="comment.line"><i style="color: red"></span><br></code></pre>''\<close>
    unfolding sublist_def by blast
  then have s: \<open>sublist ''style="color: '' (tokenizedFileToHTML crc8_poly07 [[?c]])\<close>
    by (simp only: e)
  show ?thesis by (intro conjI n e s m f)
qed

text \<open>
  Claim C10. The style attribute and the rendering are defined on every token, and
  \<^verbatim>\<open>tokenizedFileToHTML\<close> renders every token list: its output is the opening tag, the
  spans of the tokens line by line with a line break after each line, and the closing
  tag, so the span of each token stands in the output at the token's place. A token
  without scopes is not name-like, has no style attribute, and its span, also in the
  output of \<^verbatim>\<open>tokenizedFileToHTML\<close>, is \<^verbatim>\<open><span  title="">T</span>\<close> with its text \<open>T\<close>. A
  name-like token with the empty text gets the colour at index \<open>crc8 [] mod 60\<close>,
  which is in range, and its span carries it. For every token the read of the table
  is in range (never \<^verbatim>\<open>undefined\<close>), so the attribute is empty or carries an entry of
  the table.
\<close>

theorem style_and_rendering_total:
  \<open>(scopes token = [] \<longrightarrow>
       \<not> nameLike token
       \<and> styleAttributeForToken crc8 token = ''''
       \<and> renderTokens crc8 html [token] = html @ ''<span  title="">'' @ text token @ ''</span>''
       \<and> spanMarkup crc8 token = ''<span  title="">'' @ text token @ ''</span>''
       \<and> tokenizedFileToHTML crc8 [[token]]
           = ''<pre><code><span  title="">'' @ text token @ ''</span><br></code></pre>'')
   \<and> (nameLike token \<and> text token = [] \<longrightarrow>
         unat (crc8 []) mod 60 < length htmlColors
         \<and> styleAttributeForToken crc8 token
             = ''style="color: '' @ htmlColors ! (unat (crc8 []) mod 60) @ ''"''
         \<and> spanMarkup crc8 token
             = ''<span style="color: '' @ htmlColors ! (unat (crc8 []) mod 60)
               @ ''" title="'' @ join (scopes token) '','' @ ''"></span>''
         \<and> tokenizedFileToHTML crc8 [[token]]
             = ''<pre><code><span style="color: '' @ htmlColors ! (unat (crc8 []) mod 60)
               @ ''" title="'' @ join (scopes token) '','' @ ''"></span><br></code></pre>'')
   \<and> array_get htmlColors (unat (crc8 (text token)) mod length htmlColors) \<noteq> None
   \<and> (styleAttributeForToken crc8 token = ''''
        \<or> (\<exists>color \<in> set htmlColors.
              styleAttributeForToken crc8 token = ''style="color: '' @ color @ ''"''))
   \<and> spanMarkup crc8 token
       = ''<span '' @ styleAttributeForToken crc8 token
         @ '' title="'' @ join (scopes token) '','' @ ''">'' @ text token @ ''</span>''
   \<and> tokenizedFileToHTML crc8 lines
       = ''<pre><code>''
         @ concat (map (\<lambda>line. concat (map (spanMarkup crc8) line) @ ''<br>'') lines)
         @ ''</code></pre>''
   \<and> tokenizedFileToHTML crc8 (linesBefore @ (tokensBefore @ token # tokensAfter) # linesAfter)
       = ''<pre><code>''
         @ concat (map (\<lambda>line. concat (map (spanMarkup crc8) line) @ ''<br>'') linesBefore)
         @ concat (map (spanMarkup crc8) tokensBefore)
         @ spanMarkup crc8 token
         @ concat (map (spanMarkup crc8) tokensAfter) @ ''<br>''
         @ concat (map (\<lambda>line. concat (map (spanMarkup crc8) line) @ ''<br>'') linesAfter)
         @ ''</code></pre>''\<close>
proof -
  have one: \<open>tokenizedFileToHTML crc8 [[token]]
      = ''<pre><code>'' @ spanMarkup crc8 token @ ''<br></code></pre>''\<close>
    by (simp add: tokenizedFileToHTML_closed)
  have a: \<open>scopes token = [] \<longrightarrow>
       \<not> nameLike token \<and> styleAttributeForToken crc8 token = ''''
       \<and> renderTokens crc8 html [token] = html @ ''<span  title="">'' @ text token @ ''</span>''
       \<and> spanMarkup crc8 token = ''<span  title="">'' @ text token @ ''</span>''
       \<and> tokenizedFileToHTML crc8 [[token]]
           = ''<pre><code><span  title="">'' @ text token @ ''</span><br></code></pre>''\<close>
  proof
    assume that: "scopes token = []"
    from that have n: "\<not> nameLike token" by (simp add: nameLike_def)
    from that n have s: \<open>spanMarkup crc8 token = ''<span  title="">'' @ text token @ ''</span>''\<close>
      by (simp add: spanMarkup_not_nameLike)
    from that n s
    show \<open>\<not> nameLike token \<and> styleAttributeForToken crc8 token = ''''
       \<and> renderTokens crc8 html [token] = html @ ''<span  title="">'' @ text token @ ''</span>''
       \<and> spanMarkup crc8 token = ''<span  title="">'' @ text token @ ''</span>''
       \<and> tokenizedFileToHTML crc8 [[token]]
           = ''<pre><code><span  title="">'' @ text token @ ''</span><br></code></pre>''\<close>
      by (simp add: one style_not_nameLike)
  qed
  have b: \<open>nameLike token \<and> text token = [] \<longrightarrow>
         unat (crc8 []) mod 60 < length htmlColors
         \<and> styleAttributeForToken crc8 token
             = ''style="color: '' @ htmlColors ! (unat (crc8 []) mod 60) @ ''"''
         \<and> spanMarkup crc8 token
             = ''<span style="color: '' @ htmlColors ! (unat (crc8 []) mod 60)
               @ ''" title="'' @ join (scopes token) '','' @ ''"></span>''
         \<and> tokenizedFileToHTML crc8 [[token]]
             = ''<pre><code><span style="color: '' @ htmlColors ! (unat (crc8 []) mod 60)
               @ ''" title="'' @ join (scopes token) '','' @ ''"></span><br></code></pre>''\<close>
  proof
    assume that: "nameLike token \<and> text token = []"
    from that have s: \<open>spanMarkup crc8 token
             = ''<span style="color: '' @ htmlColors ! (unat (crc8 []) mod 60)
               @ ''" title="'' @ join (scopes token) '','' @ ''"></span>''\<close>
      using spanMarkup_nameLike [of token crc8] by simp
    from that s
    show \<open>unat (crc8 []) mod 60 < length htmlColors
         \<and> styleAttributeForToken crc8 token
             = ''style="color: '' @ htmlColors ! (unat (crc8 []) mod 60) @ ''"''
         \<and> spanMarkup crc8 token
             = ''<span style="color: '' @ htmlColors ! (unat (crc8 []) mod 60)
               @ ''" title="'' @ join (scopes token) '','' @ ''"></span>''
         \<and> tokenizedFileToHTML crc8 [[token]]
             = ''<pre><code><span style="color: '' @ htmlColors ! (unat (crc8 []) mod 60)
               @ ''" title="'' @ join (scopes token) '','' @ ''"></span><br></code></pre>''\<close>
      using style_nameLike [of token crc8] by (simp add: one length_htmlColors)
  qed
  have c: "array_get htmlColors (unat (crc8 (text token)) mod length htmlColors) \<noteq> None"
    by (simp add: array_get_htmlColors)
  have "htmlColors ! (unat (crc8 (text token)) mod 60) \<in> set htmlColors"
    by (rule nth_mem) (simp add: length_htmlColors)
  then have d: \<open>styleAttributeForToken crc8 token = ''''
        \<or> (\<exists>color \<in> set htmlColors.
              styleAttributeForToken crc8 token = ''style="color: '' @ color @ ''"'')\<close>
    by (cases "nameLike token") (auto simp add: style_nameLike style_not_nameLike)
  have r: \<open>spanMarkup crc8 token
       = ''<span '' @ styleAttributeForToken crc8 token
         @ '' title="'' @ join (scopes token) '','' @ ''">'' @ text token @ ''</span>''\<close>
    by (simp add: spanMarkup_def)
  show ?thesis
    by (intro conjI a b c d r tokenizedFileToHTML_closed tokenizedFileToHTML_at)
qed

theorem style_and_rendering_total_witness:
  \<open>scopes \<lparr>text = ''if'', scopes = []\<rparr> = []
   \<and> \<not> nameLike \<lparr>text = ''if'', scopes = []\<rparr>
   \<and> styleAttributeForToken crc8_poly07 \<lparr>text = ''if'', scopes = []\<rparr> = ''''
   \<and> renderTokens crc8_poly07 ''<pre><code>'' [\<lparr>text = ''if'', scopes = []\<rparr>]
       = ''<pre><code><span  title="">if</span>''
   \<and> tokenizedFileToHTML crc8_poly07 [[\<lparr>text = ''if'', scopes = []\<rparr>]]
       = ''<pre><code><span  title="">if</span><br></code></pre>''
   \<and> nameLike \<lparr>text = '''', scopes = [''variable.other'']\<rparr>
   \<and> styleAttributeForToken crc8_poly07 \<lparr>text = '''', scopes = [''variable.other'']\<rparr>
       = ''style="color: #d78797"''
   \<and> tokenizedFileToHTML crc8_poly07 [[\<lparr>text = '''', scopes = [''variable.other'']\<rparr>]]
       = ''<pre><code><span style="color: #d78797" title="variable.other"></span><br></code></pre>''\<close>
proof -
  let ?k = "\<lparr>text = ''if'', scopes = []\<rparr>"
  let ?v = "\<lparr>text = '''', scopes = [''variable.other'']\<rparr>"
  have v: "nameLike ?v" by (simp add: nameLike_def)
  have h: "unat (crc8_poly07 []) mod 60 = 0" by code_simp
  have c: "htmlColors ! 0 = ''#d78797''" by code_simp
  have ek: "scopes ?k = []" by simp
  have ev: "nameLike ?v \<and> text ?v = []" using v by simp
  note instk = style_and_rendering_total
    [of ?k crc8_poly07 "''<pre><code>''", THEN conjunct1, THEN mp, OF ek]
  note instv = style_and_rendering_total
    [of ?v crc8_poly07, THEN conjunct2, THEN conjunct1, THEN mp, OF ev]
  from instk have 1: "\<not> nameLike ?k"
    and 2: "styleAttributeForToken crc8_poly07 ?k = ''''"
    by blast+
  from instk have 3: \<open>renderTokens crc8_poly07 ''<pre><code>'' [?k]
      = ''<pre><code><span  title="">if</span>''\<close>
    by simp
  from instk have 4: \<open>tokenizedFileToHTML crc8_poly07 [[?k]]
      = ''<pre><code><span  title="">if</span><br></code></pre>''\<close>
    by simp
  from instv have 5: \<open>styleAttributeForToken crc8_poly07 ?v = ''style="color: #d78797"''\<close>
    by (simp add: h c)
  from instv have 6: \<open>tokenizedFileToHTML crc8_poly07 [[?v]]
      = ''<pre><code><span style="color: #d78797" title="variable.other"></span><br></code></pre>''\<close>
    by (simp add: h c)
  show ?thesis by (intro conjI ek 1 2 3 4 v 5 6)
qed

section \<open>Splitting into lines\<close>

lemma length_split_from:
  "length (split_from cur s) = Suc (length (filter (\<lambda>c. c = CHR 0x0A) s))"
  by (induction s arbitrary: cur) simp_all

lemma length_split_lines: "length (split_lines code) = segments code"
  by (simp add: split_lines_def segments_def length_split_from)

lemma join_Cons: "join (x # xs) sep = x @ concat (map (\<lambda>s. sep @ s) xs)"
  by (induction xs arbitrary: x) simp_all

lemma split_from_Cons: "\<exists>l ls. split_from cur s = (cur @ l) # ls \<and> split_from [] s = l # ls"
proof (induction s arbitrary: cur)
  case Nil
  show ?case by simp
next
  case (Cons c s)
  show ?case
  proof (cases "c = CHR 0x0A")
    case True
    then show ?thesis by simp
  next
    case False
    from Cons [of "cur @ [c]"] obtain l ls
      where 1: "split_from (cur @ [c]) s = ((cur @ [c]) @ l) # ls" and "split_from [] s = l # ls"
      by blast
    from Cons [of "[c]"] obtain l' ls'
      where 2: "split_from [c] s = ([c] @ l') # ls'" and "split_from [] s = l' # ls'"
      by blast
    with \<open>split_from [] s = l # ls\<close> have "l' = l" "ls' = ls" by simp_all
    with 1 2 False show ?thesis by simp
  qed
qed

lemma join_split_from: "join (split_from cur s) [CHR 0x0A] = cur @ s"
proof (induction s arbitrary: cur)
  case Nil
  show ?case by simp
next
  case (Cons c s)
  show ?case
  proof (cases "c = CHR 0x0A")
    case True
    obtain l ls where "split_from [] s = l # ls"
      using split_from_Cons [of "[]" s] by blast
    with Cons [of "[]"] True show ?thesis
      by (simp add: join_Cons)
  next
    case False
    with Cons [of "cur @ [c]"] show ?thesis by simp
  qed
qed

lemma join_split_lines: "join (split_lines code) [CHR 0x0A] = code"
  by (simp add: split_lines_def join_split_from)

lemma split_from_no_newline:
  "CHR 0x0A \<notin> set cur \<Longrightarrow> \<forall>l \<in> set (split_from cur s). CHR 0x0A \<notin> set l"
proof (induction s arbitrary: cur)
  case Nil
  then show ?case by simp
next
  case (Cons c s)
  show ?case
  proof (cases "c = CHR 0x0A")
    case True
    with Cons.IH [of "[]"] Cons.prems show ?thesis by simp
  next
    case False
    with Cons.IH [of "cur @ [c]"] Cons.prems show ?thesis by simp
  qed
qed

lemma split_lines_no_newline: "l \<in> set (split_lines code) \<Longrightarrow> CHR 0x0A \<notin> set l"
  using split_from_no_newline [of "[]" code] by (simp add: split_lines_def)

section \<open>The tokenizer loop\<close>

lemma length_tokenize_loop: "length (tokenize_loop grammar stack codeLines) = length codeLines"
  by (induction codeLines arbitrary: stack) (simp_all add: Let_def)

lemma stackBefore_Cons:
  "stackBefore grammar stack (codeLine # rest) (Suc i)
     = stackBefore grammar (ruleStack (grammar codeLine stack)) rest i"
  by (induction i) simp_all

lemma tokenize_loop_nth:
  "i < length codeLines \<Longrightarrow>
     tokenize_loop grammar stack codeLines ! i
       = codeLineTokens (codeLines ! i)
           (tokens (grammar (codeLines ! i) (stackBefore grammar stack codeLines i)))"
proof (induction codeLines arbitrary: stack i)
  case Nil
  then show ?case by simp
next
  case (Cons codeLine rest)
  show ?case
  proof (cases i)
    case 0
    then show ?thesis by (simp add: Let_def)
  next
    case (Suc j)
    with Cons.prems have "j < length rest" by simp
    from Cons.IH [OF this, of "ruleStack (grammar codeLine stack)"] Suc show ?thesis
      by (simp only: tokenize_loop.simps Let_def nth_Cons_Suc stackBefore_Cons)
  qed
qed

lemma tokenize_loop_take:
  "take k xs = take k ys \<Longrightarrow>
     take k (tokenize_loop grammar stack xs) = take k (tokenize_loop grammar stack ys)"
proof (induction k arbitrary: xs ys stack)
  case 0
  show ?case by simp
next
  case (Suc k)
  show ?case
  proof (cases xs)
    case Nil
    with Suc.prems have "ys = []" by (cases ys) simp_all
    with Nil show ?thesis by simp
  next
    case (Cons x xs')
    with Suc.prems obtain ys' where ys: "ys = x # ys'" and t: "take k xs' = take k ys'"
      by (cases ys) simp_all
    from Suc.IH [OF t] Cons ys show ?thesis
      by (simp add: Let_def)
  qed
qed

lemma tokenize_loop_append:
  "tokenize_loop grammar stack (xs @ ys)
     = tokenize_loop grammar stack xs
       @ tokenize_loop grammar (stackBefore grammar stack xs (length xs)) ys"
proof (induction xs arbitrary: stack)
  case Nil
  show ?case by simp
next
  case (Cons x xs)
  show ?case
    by (simp only: append_Cons tokenize_loop.simps Let_def Cons.IH list.size
          stackBefore_Cons add_Suc_right add_0_right)
qed

section \<open>Coverage of a line\<close>

lemma substring_forward:
  "0 \<le> a \<Longrightarrow> a \<le> b \<Longrightarrow>
     substring s a b = take (nat (b - a)) (drop (nat a) s)"
proof -
  assume a: "0 \<le> a" and ab: "a \<le> b"
  let ?n = "int (length s)"
  consider "b \<le> ?n" | "a \<le> ?n" "?n < b" | "?n < a" by linarith
  then show ?thesis
  proof cases
    case 1
    with a ab show ?thesis
      by (simp add: substring_def Let_def min_def max_def)
  next
    case 2
    with a ab have "substring s a b = take (nat (?n - a)) (drop (nat a) s)"
      by (simp add: substring_def Let_def min_def max_def)
    also from 2 a have "\<dots> = drop (nat a) s"
      by simp
    also from 2 a ab have "\<dots> = take (nat (b - a)) (drop (nat a) s)"
      by simp
    finally show ?thesis .
  next
    case 3
    with a ab show ?thesis
      by (simp add: substring_def Let_def min_def max_def)
  qed
qed

lemma codeLineTokens_covers:
  "0 \<le> pos \<Longrightarrow> covers pos ts (int (length codeLine)) \<Longrightarrow>
     concat (map text (codeLineTokens codeLine ts)) = drop (nat pos) codeLine"
proof (induction ts arbitrary: pos)
  case Nil
  then show ?case by simp
next
  case (Cons t ts)
  from Cons.prems have s: "startIndex t = pos" and le: "pos \<le> endIndex t"
    and rest: "covers (endIndex t) ts (int (length codeLine))"
    by simp_all
  from Cons.prems le have e0: "0 \<le> endIndex t" by simp
  have "concat (map text (codeLineTokens codeLine (t # ts)))
      = substring codeLine pos (endIndex t) @ concat (map text (codeLineTokens codeLine ts))"
    by (simp add: s)
  also have "\<dots> = take (nat (endIndex t - pos)) (drop (nat pos) codeLine) @ drop (nat (endIndex t)) codeLine"
    using Cons.IH [OF e0 rest] Cons.prems(1) le by (simp add: substring_forward)
  also have "drop (nat (endIndex t)) codeLine = drop (nat (endIndex t - pos)) (drop (nat pos) codeLine)"
    using Cons.prems(1) le by (simp add: nat_diff_distrib)
  finally show ?case by (simp only: append_take_drop_id)
qed

section \<open>Claims about the tokenizer adapter\<close>

text \<open>
  Claim C3. Take any text, any line \<open>i\<close> of it, and the spans that the engine returns for
  that line (called with the rule stack held at that point). If the spans cover the
  line without gap or overlap (the first starts at 0, each next one starts where the
  one before it ended, none runs backwards, the last reaches the end of the line or
  ends after it), the texts of the tokens yielded for the line, concatenated in their
  order, are the line.
\<close>

theorem line_tokens_cover_line:
  assumes "i < length (split_lines code)"
    and "covers 0
           (tokens (grammar (split_lines code ! i)
                      (stackBefore grammar INITIAL (split_lines code) i)))
           (int (length (split_lines code ! i)))"
  shows "concat (map text (tokenize INITIAL code grammar ! i)) = split_lines code ! i"
proof -
  from assms(1)
  have "tokenize INITIAL code grammar ! i
      = codeLineTokens (split_lines code ! i)
          (tokens (grammar (split_lines code ! i)
                     (stackBefore grammar INITIAL (split_lines code) i)))"
    by (simp only: tokenize_def tokenize_loop_nth)
  with codeLineTokens_covers [OF _ assms(2)] show ?thesis by simp
qed

theorem line_tokens_cover_line_witness:
  "(0 :: nat) < length (split_lines ''let x\<newline>\<newline>b'')
   \<and> covers 0
        (tokens (wordGrammar (split_lines ''let x\<newline>\<newline>b'' ! 0)
                   (stackBefore wordGrammar 0 (split_lines ''let x\<newline>\<newline>b'') 0)))
        (int (length (split_lines ''let x\<newline>\<newline>b'' ! 0)))
   \<and> tokenize 0 ''let x\<newline>\<newline>b'' wordGrammar ! 0
       = [\<lparr>text = ''l'', scopes = [''source.demo'', ''variable.other.demo'']\<rparr>,
          \<lparr>text = ''et x'', scopes = [''source.demo'', ''meta.even'']\<rparr>]
   \<and> concat (map text (tokenize 0 ''let x\<newline>\<newline>b'' wordGrammar ! 0)) = ''let x''
   \<and> split_lines ''/* a\<newline>'' = [''/* a'', '''']
   \<and> tokens (wholeLineGrammar ''/* a'' 0)
       = [\<lparr>startIndex = 0, endIndex = 5, tokenScopes = [''source.demo'']\<rparr>]
   \<and> covers 0
        (tokens (wholeLineGrammar (split_lines ''/* a\<newline>'' ! 0)
                   (stackBefore wholeLineGrammar 0 (split_lines ''/* a\<newline>'') 0)))
        (int (length (split_lines ''/* a\<newline>'' ! 0)))
   \<and> concat (map text (tokenize 0 ''/* a\<newline>'' wholeLineGrammar ! 0)) = ''/* a''
   \<and> tokens (wholeLineGrammar '''' 1)
       = [\<lparr>startIndex = 0, endIndex = 1, tokenScopes = [''source.demo'']\<rparr>]
   \<and> covers 0
        (tokens (wholeLineGrammar (split_lines ''/* a\<newline>'' ! 1)
                   (stackBefore wholeLineGrammar 0 (split_lines ''/* a\<newline>'') 1)))
        (int (length (split_lines ''/* a\<newline>'' ! 1)))
   \<and> concat (map text (tokenize 0 ''/* a\<newline>'' wholeLineGrammar ! 1)) = ''''"
proof -
  have l: "split_lines ''let x\<newline>\<newline>b'' = [''let x'', '''', ''b'']"
    by (simp add: split_lines_def)
  have 1: "(0 :: nat) < length (split_lines ''let x\<newline>\<newline>b'')"
    by (simp add: l)
  have 2: "covers 0
        (tokens (wordGrammar (split_lines ''let x\<newline>\<newline>b'' ! 0)
                   (stackBefore wordGrammar 0 (split_lines ''let x\<newline>\<newline>b'') 0)))
        (int (length (split_lines ''let x\<newline>\<newline>b'' ! 0)))"
    by (simp add: l wordGrammar_def)
  have 3: "tokenize 0 ''let x\<newline>\<newline>b'' wordGrammar ! 0
       = [\<lparr>text = ''l'', scopes = [''source.demo'', ''variable.other.demo'']\<rparr>,
          \<lparr>text = ''et x'', scopes = [''source.demo'', ''meta.even'']\<rparr>]"
    by (simp add: tokenize_def l wordGrammar_def substring_def Let_def)
  from line_tokens_cover_line [where i = 0 and grammar = wordGrammar and INITIAL = 0, OF 1 2]
  have 4: "concat (map text (tokenize 0 ''let x\<newline>\<newline>b'' wordGrammar ! 0)) = ''let x''"
    by (simp add: l)
  have m: "split_lines ''/* a\<newline>'' = [''/* a'', '''']"
    by (simp add: split_lines_def)
  have w0: "tokens (wholeLineGrammar ''/* a'' 0)
       = [\<lparr>startIndex = 0, endIndex = 5, tokenScopes = [''source.demo'']\<rparr>]"
    and w1: "tokens (wholeLineGrammar '''' 1)
       = [\<lparr>startIndex = 0, endIndex = 1, tokenScopes = [''source.demo'']\<rparr>]"
    by (simp_all add: wholeLineGrammar_def)
  have i0: "(0 :: nat) < length (split_lines ''/* a\<newline>'')"
    and i1: "(1 :: nat) < length (split_lines ''/* a\<newline>'')"
    by (simp_all add: m)
  have c0: "covers 0
        (tokens (wholeLineGrammar (split_lines ''/* a\<newline>'' ! 0)
                   (stackBefore wholeLineGrammar 0 (split_lines ''/* a\<newline>'') 0)))
        (int (length (split_lines ''/* a\<newline>'' ! 0)))"
    by (simp add: m wholeLineGrammar_def)
  have c1: "covers 0
        (tokens (wholeLineGrammar (split_lines ''/* a\<newline>'' ! 1)
                   (stackBefore wholeLineGrammar 0 (split_lines ''/* a\<newline>'') 1)))
        (int (length (split_lines ''/* a\<newline>'' ! 1)))"
    by (simp add: m wholeLineGrammar_def)
  from line_tokens_cover_line
    [where i = 0 and grammar = wholeLineGrammar and INITIAL = 0, OF i0 c0]
  have 5: "concat (map text (tokenize 0 ''/* a\<newline>'' wholeLineGrammar ! 0)) = ''/* a''"
    by (simp add: m)
  from line_tokens_cover_line
    [where i = 1 and grammar = wholeLineGrammar and INITIAL = 0, OF i1 c1]
  have 6: "concat (map text (tokenize 0 ''/* a\<newline>'' wholeLineGrammar ! 1)) = ''''"
    by (simp add: m)
  show ?thesis by (intro conjI 1 2 3 4 m w0 c0 5 w1 c1 6)
qed

text \<open>
  Claim C4. For every input, \<^verbatim>\<open>tokenize\<close> yields as many token lists as the input has
  segments delimited by line feeds (one more than it has line feeds); the segments
  are those of \<^verbatim>\<open>split\<close>, which joined by line feeds give the input back. So
  \<^verbatim>\<open>"a\nb"\<close> yields 2 lists, \<^verbatim>\<open>"a\nb\n"\<close> yields 3, the last for an empty line, and the
  empty string yields 1.
\<close>

theorem line_count:
  "length (tokenize INITIAL code grammar) = segments code
   \<and> length (tokenize INITIAL code grammar) = length (split_lines code)
   \<and> join (split_lines code) ''\<newline>'' = code
   \<and> length (tokenize INITIAL ''a\<newline>b'' grammar) = 2
   \<and> length (tokenize INITIAL ''a\<newline>b\<newline>'' grammar) = 3
   \<and> split_lines ''a\<newline>b\<newline>'' = [''a'', ''b'', '''']
   \<and> length (tokenize INITIAL '''' grammar) = 1"
proof -
  have n: "length (tokenize INITIAL c grammar) = segments c" for c
    by (simp add: tokenize_def length_tokenize_loop length_split_lines)
  have "split_lines ''a\<newline>b\<newline>'' = [''a'', ''b'', '''']"
    by (simp add: split_lines_def)
  then show ?thesis
    by (simp add: n length_split_lines join_split_lines) (simp add: segments_def)
qed

text \<open>
  Claim C6. The list yielded for line \<open>i\<close> is made from the spans of the engine's call on
  line \<open>i\<close> with the rule stack held at that point: the initial stack before line 0,
  after each line the stack its call returned. That stack is a function of the lines
  before \<open>i\<close> only. So two inputs with the same first \<open>k\<close> lines yield the same first \<open>k\<close>
  token lists: no later line changes an earlier list.
\<close>

theorem tokenization_left_to_right:
  "(i < length (split_lines code) \<longrightarrow>
      tokenize INITIAL code grammar ! i
        = codeLineTokens (split_lines code ! i)
            (tokens (grammar (split_lines code ! i)
                       (stackBefore grammar INITIAL (split_lines code) i))))
   \<and> stackBefore grammar INITIAL (split_lines code) 0 = INITIAL
   \<and> stackBefore grammar INITIAL (split_lines code) (Suc i)
       = ruleStack (grammar (split_lines code ! i)
                      (stackBefore grammar INITIAL (split_lines code) i))
   \<and> (take k (split_lines code) = take k (split_lines code') \<longrightarrow>
        take k (tokenize INITIAL code grammar) = take k (tokenize INITIAL code' grammar))"
proof (intro conjI impI)
  assume "i < length (split_lines code)"
  then show "tokenize INITIAL code grammar ! i
        = codeLineTokens (split_lines code ! i)
            (tokens (grammar (split_lines code ! i)
                       (stackBefore grammar INITIAL (split_lines code) i)))"
    by (simp only: tokenize_def tokenize_loop_nth)
next
  assume "take k (split_lines code) = take k (split_lines code')"
  then show "take k (tokenize INITIAL code grammar) = take k (tokenize INITIAL code' grammar)"
    unfolding tokenize_def by (rule tokenize_loop_take)
qed simp_all

theorem tokenization_left_to_right_witness:
  "(1 :: nat) < length (split_lines ''ab\<newline>cd\<newline>ef'')
   \<and> tokenize 0 ''ab\<newline>cd\<newline>ef'' wordGrammar ! 1
       = [\<lparr>text = ''c'', scopes = [''source.demo'', ''variable.other.demo'']\<rparr>,
          \<lparr>text = ''d'', scopes = [''source.demo'', ''meta.odd'']\<rparr>]
   \<and> take 2 (split_lines ''ab\<newline>cd\<newline>ef'') = take 2 (split_lines ''ab\<newline>cd\<newline>XYZ\<newline>more'')
   \<and> take 2 (tokenize 0 ''ab\<newline>cd\<newline>ef'' wordGrammar)
       = take 2 (tokenize 0 ''ab\<newline>cd\<newline>XYZ\<newline>more'' wordGrammar)"
proof -
  have l: "split_lines ''ab\<newline>cd\<newline>ef'' = [''ab'', ''cd'', ''ef'']"
    and l': "split_lines ''ab\<newline>cd\<newline>XYZ\<newline>more'' = [''ab'', ''cd'', ''XYZ'', ''more'']"
    by (simp_all add: split_lines_def)
  have 1: "(1 :: nat) < length (split_lines ''ab\<newline>cd\<newline>ef'')"
    by (simp add: l)
  have 2: "take 2 (split_lines ''ab\<newline>cd\<newline>ef'') = take 2 (split_lines ''ab\<newline>cd\<newline>XYZ\<newline>more'')"
    by (simp add: l l')
  note inst = tokenization_left_to_right
    [of 1 "''ab\<newline>cd\<newline>ef''" 0 wordGrammar 2 "''ab\<newline>cd\<newline>XYZ\<newline>more''"]
  from inst [THEN conjunct1, THEN mp, OF 1]
  have 3: "tokenize 0 ''ab\<newline>cd\<newline>ef'' wordGrammar ! 1
       = [\<lparr>text = ''c'', scopes = [''source.demo'', ''variable.other.demo'']\<rparr>,
          \<lparr>text = ''d'', scopes = [''source.demo'', ''meta.odd'']\<rparr>]"
    by (simp add: l wordGrammar_def substring_def Let_def)
  note 4 = inst [THEN conjunct2, THEN conjunct2, THEN conjunct2, THEN mp, OF 2]
  show ?thesis by (intro conjI 1 2 3 4)
qed

text \<open>
  Claim C8, as amended. For the empty input \<^verbatim>\<open>tokenize\<close> makes one call of the engine, on
  the empty line with the initial rule stack, and yields exactly one token list: one
  token per span that call returns, each with the empty text. When the call returns
  no span, the list is empty and the rendered output is
  \<^verbatim>\<open><pre><code><br></code></pre>\<close>.
\<close>

theorem empty_input:
  \<open>tokenize INITIAL '''' grammar
     = [map (\<lambda>t. \<lparr>text = '''', scopes = tokenScopes t\<rparr>) (tokens (grammar '''' INITIAL))]
   \<and> length (tokenize INITIAL '''' grammar) = 1
   \<and> (tokens (grammar '''' INITIAL) = [] \<longrightarrow>
        tokenize INITIAL '''' grammar = [[]]
        \<and> tokenizedFileToHTML crc8 (tokenize INITIAL '''' grammar) = ''<pre><code><br></code></pre>'')\<close>
proof -
  have "codeLineTokens '''' ts = map (\<lambda>t. \<lparr>text = '''', scopes = tokenScopes t\<rparr>) ts" for ts
    by (induction ts) (simp_all add: substring_def)
  then have "tokenize INITIAL '''' grammar
     = [map (\<lambda>t. \<lparr>text = '''', scopes = tokenScopes t\<rparr>) (tokens (grammar '''' INITIAL))]"
    by (simp add: tokenize_def split_lines_def Let_def)
  then show ?thesis
    by (simp add: tokenizedFileToHTML_def)
qed

theorem empty_input_witness:
  \<open>tokens (wordGrammar '''' 0) = []
   \<and> tokenize 0 '''' wordGrammar = [[]]
   \<and> tokenizedFileToHTML crc8_poly07 (tokenize 0 '''' wordGrammar) = ''<pre><code><br></code></pre>''\<close>
proof -
  have e: "tokens (wordGrammar '''' 0) = []"
    by (simp add: wordGrammar_def)
  with empty_input [of 0 wordGrammar crc8_poly07] show ?thesis
    by blast
qed

text \<open>
  The claim C8 as it was stated fails for an engine that returns a span on an empty
  line: the one list yielded then holds a token, and the output holds its element.
\<close>

theorem empty_input_with_a_span:
  \<open>tokenize 0 '''' wholeLineGrammar \<noteq> [[]]
   \<and> tokenize 0 '''' wholeLineGrammar = [[\<lparr>text = '''', scopes = [''source.demo'']\<rparr>]]
   \<and> tokenizedFileToHTML crc8_poly07 (tokenize 0 '''' wholeLineGrammar)
       \<noteq> ''<pre><code><br></code></pre>''
   \<and> tokenizedFileToHTML crc8_poly07 (tokenize 0 '''' wholeLineGrammar)
       = ''<pre><code><span  title="source.demo"></span><br></code></pre>''\<close>
proof -
  have t: "tokenize 0 '''' wholeLineGrammar = [[\<lparr>text = '''', scopes = [''source.demo'']\<rparr>]]"
    by (simp add: tokenize_def split_lines_def wholeLineGrammar_def substring_def)
  have n: "\<not> nameLike \<lparr>text = '''', scopes = [''source.demo'']\<rparr>"
    by (simp add: nameLike_def)
  have \<open>tokenizedFileToHTML crc8_poly07 [[\<lparr>text = '''', scopes = [''source.demo'']\<rparr>]]
       = ''<pre><code><span  title="source.demo"></span><br></code></pre>''\<close>
    by (simp add: tokenizedFileToHTML_def style_not_nameLike [OF n])
  with t have h: \<open>tokenizedFileToHTML crc8_poly07 (tokenize 0 '''' wholeLineGrammar)
       = ''<pre><code><span  title="source.demo"></span><br></code></pre>''\<close>
    by (simp only:)
  have d: \<open>''<pre><code><span  title="source.demo"></span><br></code></pre>''
      \<noteq> ''<pre><code><br></code></pre>''\<close>
    by simp
  from t have e: "tokenize 0 '''' wholeLineGrammar \<noteq> [[]]"
    by (simp only:) simp
  have ne: "tokenizedFileToHTML crc8_poly07 (tokenize 0 '''' wholeLineGrammar)
       \<noteq> ''<pre><code><br></code></pre>''"
    unfolding h by (rule d)
  show ?thesis by (intro conjI e t ne h)
qed

section \<open>Grammar lookup\<close>

lemma array_includes_iff: "array_includes xs v \<longleftrightarrow> v \<in> set xs"
  by (induction xs) auto

lemma find_first_None: "find_first p xs = None \<longleftrightarrow> (\<forall>x \<in> set xs. \<not> p x)"
  by (induction xs) simp_all

lemma find_first_Some:
  "find_first p xs = Some y
     \<longleftrightarrow> (\<exists>i < length xs. xs ! i = y \<and> p y \<and> (\<forall>j < i. \<not> p (xs ! j)))"
proof (induction xs)
  case Nil
  show ?case by simp
next
  case (Cons x xs)
  show ?case
  proof (cases "p x")
    case True
    have "(\<exists>i < length (x # xs). (x # xs) ! i = y \<and> p y \<and> (\<forall>j < i. \<not> p ((x # xs) ! j)))
        \<longleftrightarrow> x = y"
    proof
      assume "\<exists>i < length (x # xs). (x # xs) ! i = y \<and> p y \<and> (\<forall>j < i. \<not> p ((x # xs) ! j))"
      then obtain i where i: "(x # xs) ! i = y" "\<forall>j < i. \<not> p ((x # xs) ! j)"
        by blast
      with True have "i = 0" by (cases i) auto
      with i show "x = y" by simp
    next
      assume "x = y"
      with True have "0 < length (x # xs) \<and> (x # xs) ! 0 = y \<and> p y
          \<and> (\<forall>j < 0. \<not> p ((x # xs) ! j))"
        by simp
      then show "\<exists>i < length (x # xs). (x # xs) ! i = y \<and> p y \<and> (\<forall>j < i. \<not> p ((x # xs) ! j))"
        by blast
    qed
    with True show ?thesis by simp
  next
    case False
    have "(\<exists>i < length (x # xs). (x # xs) ! i = y \<and> p y \<and> (\<forall>j < i. \<not> p ((x # xs) ! j)))
        \<longleftrightarrow> (\<exists>i < length xs. xs ! i = y \<and> p y \<and> (\<forall>j < i. \<not> p (xs ! j)))"
    proof
      assume "\<exists>i < length (x # xs). (x # xs) ! i = y \<and> p y \<and> (\<forall>j < i. \<not> p ((x # xs) ! j))"
      then obtain i where i: "i < length (x # xs)" "(x # xs) ! i = y" "p y"
          "\<forall>j < i. \<not> p ((x # xs) ! j)"
        by blast
      with False obtain k where k: "i = Suc k" by (cases i) auto
      with i have "k < length xs" "xs ! k = y" by simp_all
      moreover have "\<not> p (xs ! j)" if "j < k" for j
        using i(4) k that by (auto dest: spec [of _ "Suc j"])
      ultimately show "\<exists>i < length xs. xs ! i = y \<and> p y \<and> (\<forall>j < i. \<not> p (xs ! j))"
        using i(3) by blast
    next
      assume "\<exists>i < length xs. xs ! i = y \<and> p y \<and> (\<forall>j < i. \<not> p (xs ! j))"
      then obtain k where k: "k < length xs" "xs ! k = y" "p y" "\<forall>j < k. \<not> p (xs ! j)"
        by blast
      have "\<not> p ((x # xs) ! j)" if "j < Suc k" for j
        using that k(4) False by (cases j) simp_all
      with k have "Suc k < length (x # xs) \<and> (x # xs) ! Suc k = y \<and> p y
          \<and> (\<forall>j < Suc k. \<not> p ((x # xs) ! j))"
        by simp
      then show "\<exists>i < length (x # xs). (x # xs) ! i = y \<and> p y \<and> (\<forall>j < i. \<not> p ((x # xs) ! j))"
        by blast
    qed
    with False Cons.IH show ?thesis by simp
  qed
qed

lemma flagToGrammarInfo_find:
  "flagToGrammarInfo grammars flag = find_first (flagMatches flag) grammars"
proof -
  have "(\<lambda>grammarInfo. flag = name grammarInfo
          \<or> (case aliases grammarInfo of None \<Rightarrow> False | Some as \<Rightarrow> array_includes as flag))
      = flagMatches flag"
    by (rule ext) (simp add: flagMatches_def array_includes_iff split: option.split)
  then show ?thesis
    by (simp only: flagToGrammarInfo_def)
qed

text \<open>
  Claim C9. A flag resolves to nothing exactly when no entry of the list has it as
  its name or among its aliases; it resolves to the entry \<open>g\<close> exactly when \<open>g\<close> is the
  first entry of the list, in the list's order, that has it as its name or among
  its aliases. The comparison is equality of strings, so letter case counts.
\<close>

theorem flag_resolution:
  "(flagToGrammarInfo grammars flag = None \<longleftrightarrow> (\<forall>g \<in> set grammars. \<not> flagMatches flag g))
   \<and> (flagToGrammarInfo grammars flag = Some g
        \<longleftrightarrow> (\<exists>i < length grammars. grammars ! i = g \<and> flagMatches flag g
              \<and> (\<forall>j < i. \<not> flagMatches flag (grammars ! j))))
   \<and> (flagMatches flag g
        \<longleftrightarrow> flag = name g \<or> (\<exists>as. aliases g = Some as \<and> flag \<in> set as))"
proof -
  have "flagMatches flag g \<longleftrightarrow> flag = name g \<or> (\<exists>as. aliases g = Some as \<and> flag \<in> set as)"
    by (cases "aliases g") (simp_all add: flagMatches_def)
  then show ?thesis
    by (simp only: flagToGrammarInfo_find find_first_None find_first_Some simp_thms)
qed

theorem flag_resolution_witness:
  "flagToGrammarInfo demoGrammars ''TS'' = None
   \<and> flagToGrammarInfo demoGrammars ''ts''
       = Some \<lparr>name = ''typescript'', scopeName = ''source.ts'', aliases = Some [''ts'']\<rparr>
   \<and> flagMatches ''ts'' \<lparr>name = ''ts'', scopeName = ''source.other'', aliases = None\<rparr>
   \<and> demoGrammars ! 2 = \<lparr>name = ''ts'', scopeName = ''source.other'', aliases = None\<rparr>"
proof -
  let ?g = "\<lparr>name = ''typescript'', scopeName = ''source.ts'', aliases = Some [''ts'']\<rparr>"
  let ?h = "\<lparr>name = ''ts'', scopeName = ''source.other'', aliases = None\<rparr>"
  have none: "\<forall>g \<in> set demoGrammars. \<not> flagMatches ''TS'' g"
    by (simp add: demoGrammars_def flagMatches_def)
  have first: "0 < length demoGrammars \<and> demoGrammars ! 0 = ?g \<and> flagMatches ''ts'' ?g
      \<and> (\<forall>j < 0. \<not> flagMatches ''ts'' (demoGrammars ! j))"
    by (simp add: demoGrammars_def flagMatches_def)
  have third: "flagMatches ''ts'' ?h" "demoGrammars ! 2 = ?h"
    by (simp_all add: demoGrammars_def flagMatches_def)
  from flag_resolution [of demoGrammars "''TS''"] none
  have 1: "flagToGrammarInfo demoGrammars ''TS'' = None"
    by (simp only:)
  from first have "\<exists>i < length demoGrammars. demoGrammars ! i = ?g \<and> flagMatches ''ts'' ?g
      \<and> (\<forall>j < i. \<not> flagMatches ''ts'' (demoGrammars ! j))"
    by (rule_tac x = 0 in exI)
  with flag_resolution [of demoGrammars "''ts''" ?g]
  have 2: "flagToGrammarInfo demoGrammars ''ts'' = Some ?g"
    by (simp only:)
  show ?thesis by (intro conjI 1 2 third)
qed

section \<open>The top-level operation\<close>

text \<open>
  Claim C7. When the flag resolves to no grammar, the outcome of \<^verbatim>\<open>highlight\<close> is the
  error \<^verbatim>\<open>Failed to find grammar for flag\<close> followed by the flag, whatever the code, the
  engine and its loader are: it is settled before a grammar is loaded or a line is
  tokenized. When the flag resolves and the engine's loader returns no grammar for
  the entry's scope name, the outcome is the error
  \<^verbatim>\<open>Failed to load grammar for scope name\<close> followed by that scope name, whatever the
  code is. An outcome is an error or a document, never both, and a document is always
  the rendering of the code's tokens under the grammar loaded for the scope name the
  flag resolved to: there is no second attempt and no other grammar.
\<close>

theorem highlight_errors:
  "(flagToGrammarInfo grammars flag = None \<longrightarrow>
      highlight grammars loadGrammar INITIAL crc8 code flag
        = Inl (Error (''Failed to find grammar for flag '' @ flag))
      \<and> highlight grammars loadGrammar' INITIAL' crc8' code' flag
        = highlight grammars loadGrammar INITIAL crc8 code flag)
   \<and> (flagToGrammarInfo grammars flag = Some grammarInfo
        \<and> loadGrammar (scopeName grammarInfo) = None \<longrightarrow>
      highlight grammars loadGrammar INITIAL crc8 code flag
        = Inl (Error (''Failed to load grammar for scope name '' @ scopeName grammarInfo))
      \<and> highlight grammars loadGrammar INITIAL' crc8' code' flag
        = highlight grammars loadGrammar INITIAL crc8 code flag)
   \<and> (highlight grammars loadGrammar INITIAL crc8 code flag = Inr html \<longrightarrow>
        (\<exists>grammarInfo grammar.
           flagToGrammarInfo grammars flag = Some grammarInfo
           \<and> loadGrammar (scopeName grammarInfo) = Some grammar
           \<and> html = tokenizedFileToHTML crc8 (tokenize INITIAL code grammar)))"
  by (auto simp add: highlight_def split: option.splits)

theorem highlight_errors_witness:
  "flagToGrammarInfo demoGrammars ''not-a-real-language'' = None
   \<and> highlight demoGrammars demoRegistry 0 crc8_poly07 ''let x'' ''not-a-real-language''
       = Inl (Error ''Failed to find grammar for flag not-a-real-language'')
   \<and> flagToGrammarInfo demoGrammars ''hs''
       = Some \<lparr>name = ''haskell'', scopeName = ''source.haskell'', aliases = Some [''hs'']\<rparr>
   \<and> demoRegistry ''source.haskell'' = None
   \<and> highlight demoGrammars demoRegistry 0 crc8_poly07 ''let x'' ''hs''
       = Inl (Error ''Failed to load grammar for scope name source.haskell'')
   \<and> highlight demoGrammars demoRegistry 0 crc8_poly07 ''x'' ''ts''
       = Inr (tokenizedFileToHTML crc8_poly07 (tokenize 0 ''x'' wordGrammar))
   \<and> (\<exists>grammarInfo grammar.
         flagToGrammarInfo demoGrammars ''ts'' = Some grammarInfo
         \<and> demoRegistry (scopeName grammarInfo) = Some grammar
         \<and> tokenizedFileToHTML crc8_poly07 (tokenize 0 ''x'' wordGrammar)
             = tokenizedFileToHTML crc8_poly07 (tokenize 0 ''x'' grammar))"
proof -
  let ?h = "\<lparr>name = ''haskell'', scopeName = ''source.haskell'', aliases = Some [''hs'']\<rparr>"
  have 1: "flagToGrammarInfo demoGrammars ''not-a-real-language'' = None"
    by (simp add: flagToGrammarInfo_def demoGrammars_def)
  have 2: "flagToGrammarInfo demoGrammars ''hs'' = Some ?h"
    by (simp add: flagToGrammarInfo_def demoGrammars_def)
  have 3: "demoRegistry ''source.haskell'' = None"
    by (simp add: demoRegistry_def)
  have 4: "highlight demoGrammars demoRegistry 0 crc8_poly07 ''x'' ''ts''
       = Inr (tokenizedFileToHTML crc8_poly07 (tokenize 0 ''x'' wordGrammar))"
    by (simp add: highlight_def flagToGrammarInfo_def demoGrammars_def demoRegistry_def)
  from highlight_errors
    [where grammars = demoGrammars and flag = "''not-a-real-language''"
       and loadGrammar = demoRegistry and INITIAL = 0
       and code = "''let x''", THEN conjunct1, THEN mp, OF 1, THEN conjunct1]
  have 5: "highlight demoGrammars demoRegistry 0 crc8_poly07 ''let x'' ''not-a-real-language''
       = Inl (Error ''Failed to find grammar for flag not-a-real-language'')"
    by simp
  from 2 3 have 23: "flagToGrammarInfo demoGrammars ''hs'' = Some ?h
      \<and> demoRegistry (scopeName ?h) = None"
    by simp
  from highlight_errors
    [where grammars = demoGrammars and flag = "''hs''" and grammarInfo = ?h
       and loadGrammar = demoRegistry and INITIAL = 0
       and code = "''let x''", THEN conjunct2, THEN conjunct1, THEN mp, OF 23, THEN conjunct1]
  have 6: "highlight demoGrammars demoRegistry 0 crc8_poly07 ''let x'' ''hs''
       = Inl (Error ''Failed to load grammar for scope name source.haskell'')"
    by simp
  note 7 = highlight_errors
    [where grammars = demoGrammars and flag = "''ts''" and loadGrammar = demoRegistry
       and INITIAL = 0 and code = "''x''",
     THEN conjunct2, THEN conjunct2, THEN mp, OF 4]
  show ?thesis by (intro conjI 1 2 3 4 5 6 7)
qed

end
